theory Spec2Isabelle
  imports Main "HOL-Library.Word"
begin

unbundle bit_operations_syntax

section \<open>Data model\<close>

text \<open>
  The driver runs on an STM32F7 (Cortex-M7, ILP32): \<open>uint8_t\<close> is an 8-bit word,
  \<open>uint32_t\<close> and \<open>size_t\<close> are 32-bit words whose arithmetic wraps around.
\<close>

type_synonym u8 = "8 word"
type_synonym u32 = "32 word"
type_synonym size_t = "32 word"

subsection \<open>The HAL's descriptors\<close>

text \<open>
  The HAL's configuration macros, one datatype per field, with the values the driver uses.
\<close>

datatype address_size = QSPI_ADDRESS_24_BITS
datatype alternate_byte_mode = QSPI_ALTERNATE_BYTES_NONE | QSPI_ALTERNATE_BYTES_4_LINES
datatype alternate_bytes_size = QSPI_ALTERNATE_BYTES_8_BITS
datatype ddr_mode = QSPI_DDR_MODE_DISABLE
datatype ddr_hold = QSPI_DDR_HHC_ANALOG_DELAY
datatype sioo_mode = QSPI_SIOO_INST_EVERY_CMD
datatype instruction_mode = QSPI_INSTRUCTION_1_LINE
datatype address_mode = QSPI_ADDRESS_NONE | QSPI_ADDRESS_1_LINE
datatype data_mode = QSPI_DATA_NONE | QSPI_DATA_1_LINE | QSPI_DATA_4_LINES
datatype match_mode = QSPI_MATCH_MODE_AND
datatype automatic_stop = QSPI_AUTOMATIC_STOP_ENABLE
datatype timeout_activation = QSPI_TIMEOUT_COUNTER_DISABLE

text \<open>
  \<open>QSPI_CommandTypeDef\<close> is a local variable of each operation, filled in field by field.
  A field the operation never assigns is indeterminate in C; the three fields that some
  operation leaves unassigned are options, \<open>None\<close> meaning "never assigned".
\<close>

record QSPI_CommandTypeDef =
  Instruction :: u8
  Address :: "u32 option"
  AddressSize :: address_size
  AlternateByteMode :: alternate_byte_mode
  AlternateBytesSize :: "alternate_bytes_size option"
  DdrMode :: ddr_mode
  DdrHoldHalfCycle :: ddr_hold
  SIOOMode :: sioo_mode
  InstructionMode :: instruction_mode
  AddressMode :: address_mode
  DataMode :: data_mode
  DummyCycles :: nat
  NbData :: "u32 option"

record QSPI_AutoPollingTypeDef =
  Match :: u32
  Mask :: u32
  MatchMode :: match_mode
  StatusBytesSize :: nat
  Interval :: u32
  AutomaticStop :: automatic_stop

record QSPI_MemoryMappedTypeDef =
  TimeOutActivation :: timeout_activation

subsection \<open>Constants of the driver\<close>

text \<open>
  The class declaration (\<open>qspi-flash.h\<close>) is not part of the sources at hand, so the
  constants it declares and the code uses are a parameter of every operation.
\<close>

record flash_h =
  JEDEC_ID :: u8
  WRITE_ENABLE :: u8
  READ_STATUS_REGISTER :: u8
  FAST_READ_QUAD_OUT :: u8
  QUAD_PAGE_PROGRAM :: u8
  CHIP_ERASE :: u8
  QSPI_TIMEOUT :: u32
  QSPI_ERASE_TIMEOUT :: u32
  QSPI_CHIP_ERASE_TIMEOUT :: u32

text \<open>The Winbond opcodes of \<open>qspi-winbond.h\<close> that the code uses.\<close>

definition VOLATILE_SR_WRITE_ENABLE :: u8 where
  "VOLATILE_SR_WRITE_ENABLE = 0x50"

definition READ_STATUS_REGISTER_2 :: u8 where
  "READ_STATUS_REGISTER_2 = 0x35"

definition WRITE_STATUS_REGISTER_2 :: u8 where
  "WRITE_STATUS_REGISTER_2 = 0x31"

subsection \<open>Calls to the outside, and the driver object\<close>

text \<open>
  Every call the driver makes to the HAL and to the RTOS mutex and semaphore is an
  event, with the arguments that matter. A transmit carries the bytes it sends.
\<close>

datatype event =
    MutexTimedLock u32
  | MutexUnlock
  | Abort
  | Command QSPI_CommandTypeDef u32
  | Receive u32
  | ReceiveIT
  | Transmit "u8 list" u32
  | AutoPollingIT QSPI_CommandTypeDef QSPI_AutoPollingTypeDef
  | MemoryMapped QSPI_CommandTypeDef QSPI_MemoryMappedTypeDef
  | SemTimedWait u32

text \<open>
  The object: its identity fields (the members \<open>manufacturer_ID_\<close>, \<open>memory_type_\<close>
  and \<open>memory_capacity_\<close>, without the trailing underscore that Isabelle reserves),
  the profile pointer (\<open>None\<close> is the null pointer,
  \<open>Some n\<close> the \<open>n\<close>-th object the allocator returned), the number of objects
  allocated so far, and the calls made so far, oldest first.
\<close>

record qspi =
  manufacturer_ID :: u8
  memory_type :: u8
  memory_capacity :: u8
  valid_mem_ID :: bool
  pimpl :: "nat option"
  allocated :: nat
  trace :: "event list"

text \<open>
  The outside world answers each call: \<open>ok E i\<close> is whether the \<open>i\<close>-th call
  (counted over the whole trace) succeeds, \<open>rx E i j\<close> is byte \<open>j\<close> of the data a
  receive started by the \<open>i\<close>-th call delivers.
\<close>

record env =
  ok :: "nat \<Rightarrow> bool"
  rx :: "nat \<Rightarrow> nat \<Rightarrow> u8"

definition call :: "env \<Rightarrow> event \<Rightarrow> qspi \<Rightarrow> bool \<times> qspi" where
  "call E e q = (ok E (length (trace q)), q\<lparr>trace := trace q @ [e]\<rparr>)"

definition mutex_timed_lock :: "env \<Rightarrow> u32 \<Rightarrow> qspi \<Rightarrow> bool \<times> qspi" where
  "mutex_timed_lock E t q = call E (MutexTimedLock t) q"

definition mutex_unlock :: "env \<Rightarrow> qspi \<Rightarrow> qspi" where
  "mutex_unlock E q = snd (call E MutexUnlock q)"

definition semaphore_timed_wait :: "env \<Rightarrow> u32 \<Rightarrow> qspi \<Rightarrow> bool \<times> qspi" where
  "semaphore_timed_wait E t q = call E (SemTimedWait t) q"

definition HAL_QSPI_Abort :: "env \<Rightarrow> qspi \<Rightarrow> qspi" where
  "HAL_QSPI_Abort E q = snd (call E Abort q)"

definition HAL_QSPI_Command :: "env \<Rightarrow> QSPI_CommandTypeDef \<Rightarrow> u32 \<Rightarrow> qspi \<Rightarrow> bool \<times> qspi" where
  "HAL_QSPI_Command E c t q = call E (Command c t) q"

text \<open>A receive returns its outcome, the received bytes and the new state.\<close>

definition HAL_QSPI_Receive :: "env \<Rightarrow> u32 \<Rightarrow> qspi \<Rightarrow> bool \<times> (nat \<Rightarrow> u8) \<times> qspi" where
  "HAL_QSPI_Receive E t q =
     (let (r, q') = call E (Receive t) q in (r, rx E (length (trace q)), q'))"

definition HAL_QSPI_Receive_IT :: "env \<Rightarrow> qspi \<Rightarrow> bool \<times> (nat \<Rightarrow> u8) \<times> qspi" where
  "HAL_QSPI_Receive_IT E q =
     (let (r, q') = call E ReceiveIT q in (r, rx E (length (trace q)), q'))"

definition HAL_QSPI_Transmit :: "env \<Rightarrow> u8 list \<Rightarrow> u32 \<Rightarrow> qspi \<Rightarrow> bool \<times> qspi" where
  "HAL_QSPI_Transmit E d t q = call E (Transmit d t) q"

definition HAL_QSPI_AutoPolling_IT ::
    "env \<Rightarrow> QSPI_CommandTypeDef \<Rightarrow> QSPI_AutoPollingTypeDef \<Rightarrow> qspi \<Rightarrow> bool \<times> qspi" where
  "HAL_QSPI_AutoPolling_IT E c g q = call E (AutoPollingIT c g) q"

definition HAL_QSPI_MemoryMapped ::
    "env \<Rightarrow> QSPI_CommandTypeDef \<Rightarrow> QSPI_MemoryMappedTypeDef \<Rightarrow> qspi \<Rightarrow> bool \<times> qspi" where
  "HAL_QSPI_MemoryMapped E c g q = call E (MemoryMapped c g) q"

section \<open>qspi-flash.cpp\<close>

subsection \<open>write\<close>

text \<open>
  The chunk size one iteration of the loop of \<open>qspi::write\<close> computes from the current
  address and the remaining count.
\<close>

definition in_block_count :: "u32 \<Rightarrow> size_t \<Rightarrow> size_t" where
  "in_block_count address count =
     (let n = 0x100 - (address AND 0xFF) in
      if n > count then count
      else if n = 0 then (if count > 0x100 then 0x100 else count)
      else n)"

text \<open>
  \<open>qspi::page_write\<close> is declared in \<open>qspi-flash.h\<close>, so the page writer that
  \<open>qspi::write\<close> calls is a parameter: it takes the address, the source pointer (the
  bytes from the pointer on) and the count.
\<close>

type_synonym page_writer = "u32 \<Rightarrow> u8 list \<Rightarrow> size_t \<Rightarrow> qspi \<Rightarrow> bool \<times> qspi"

function write_loop :: "page_writer \<Rightarrow> u32 \<Rightarrow> u8 list \<Rightarrow> size_t \<Rightarrow> qspi \<Rightarrow> bool \<times> qspi" where
  "write_loop pw address buff count q =
     (let n = in_block_count address count;
          (r, q') = pw address buff n q
      in if \<not> r then (False, q')
         else if count - n \<noteq> 0
              then write_loop pw (address + n) (drop (unat n) buff) (count - n) q'
              else (True, q'))"
  by pat_completeness auto

termination
proof (relation "measure (\<lambda>(pw, address, buff, count, q). unat count)", goal_cases)
  case 1
  show ?case by simp
next
  case (2 pw address buff count q n p r q')
  have "(0xFF::u32) = mask 8"
    by (simp add: mask_eq_exp_minus_1)
  then have "address AND 0xFF = take_bit 8 address"
    by (simp add: take_bit_eq_mask)
  then have low: "unat (address AND 0xFF) = unat address mod 256"
    by (simp add: unsigned_take_bit_eq take_bit_eq_mod unat_mod)
  have "address AND 0xFF \<le> 0x100"
    by (simp add: word_le_nat_alt low)
  then have "unat (0x100 - (address AND 0xFF)) = unat (0x100::u32) - unat (address AND 0xFF)"
    by (rule unat_sub)
  then have room: "unat (0x100 - (address AND 0xFF)) = 256 - unat address mod 256"
    by (simp add: low)
  have len: "unat (in_block_count address count) = min (unat count) (256 - unat address mod 256)"
    unfolding in_block_count_def Let_def
    by (simp add: word_less_nat_alt room unat_eq_0 [symmetric] del: unat_eq_0)
  then have "in_block_count address count \<le> count"
    by (simp add: word_le_nat_alt)
  then have sub: "unat (count - in_block_count address count)
      = unat count - unat (in_block_count address count)"
    by (rule unat_sub)
  from 2 have "unat (count - in_block_count address count) \<noteq> 0"
    by (simp add: unat_eq_0)
  with sub len have "unat (count - in_block_count address count) < unat count"
    by (simp add: min_def split: if_splits)
  with 2 show ?case by simp
qed

declare write_loop.simps [simp del]

text \<open>
  \<open>qspi::write\<close>: an unconditional abort, then the do-while loop. (\<open>write\<close> is a
  keyword of Isabelle, hence the qualified name.)
\<close>

definition qspi_write :: "env \<Rightarrow> page_writer \<Rightarrow> u32 \<Rightarrow> u8 list \<Rightarrow> size_t \<Rightarrow> qspi \<Rightarrow> bool \<times> qspi" where
  "qspi_write E pw address buff count q = write_loop pw address buff count (HAL_QSPI_Abort E q)"

subsection \<open>read_JEDEC_ID and get_ID_data\<close>

definition read_JEDEC_ID :: "flash_h \<Rightarrow> env \<Rightarrow> qspi \<Rightarrow> bool \<times> qspi" where
  "read_JEDEC_ID K E q0 =
     (let (locked, q1) = mutex_timed_lock E (QSPI_TIMEOUT K) q0 in
      if locked then
        let sCommand = \<lparr>Instruction = JEDEC_ID K, Address = None,
              AddressSize = QSPI_ADDRESS_24_BITS,
              AlternateByteMode = QSPI_ALTERNATE_BYTES_NONE, AlternateBytesSize = None,
              DdrMode = QSPI_DDR_MODE_DISABLE, DdrHoldHalfCycle = QSPI_DDR_HHC_ANALOG_DELAY,
              SIOOMode = QSPI_SIOO_INST_EVERY_CMD, InstructionMode = QSPI_INSTRUCTION_1_LINE,
              AddressMode = QSPI_ADDRESS_NONE, DataMode = QSPI_DATA_1_LINE,
              DummyCycles = 0, NbData = Some 3\<rparr>;
            q2 = HAL_QSPI_Abort E q1;
            (cmd_ok, q3) = HAL_QSPI_Command E sCommand (QSPI_TIMEOUT K) q2;
            (result, q4) =
              (if cmd_ok then
                 let (rcv_ok, buff, q3a) = HAL_QSPI_Receive_IT E q3 in
                 if rcv_ok then
                   let (sem_ok, q3b) = semaphore_timed_wait E (QSPI_TIMEOUT K) q3a in
                   if sem_ok then
                     (True, q3b\<lparr>manufacturer_ID := buff 0, memory_type := buff 1,
                                memory_capacity := buff 2, valid_mem_ID := True\<rparr>)
                   else (False, q3b)
                 else (False, q3a)
               else (False, q3));
            q5 = (if result = False then HAL_QSPI_Abort E q4 else q4)
        in (result, mutex_unlock E q5)
      else (False, q1))"

text \<open>
  \<open>new qspi_winbond {}\<close>: the allocator returns a fresh object; the old value of the
  pointer is overwritten, not deleted. The three reference parameters are the second
  component of the result: \<open>None\<close> when they are left as the caller had them.
\<close>

definition get_ID_data :: "qspi \<Rightarrow> (bool \<times> (u8 \<times> u8 \<times> u8) option) \<times> qspi" where
  "get_ID_data q =
     (if valid_mem_ID q then
        ((True, Some (manufacturer_ID q, memory_type q, memory_capacity q)),
         q\<lparr>pimpl := Some (allocated q), allocated := allocated q + 1\<rparr>)
      else ((False, None), q))"

subsection \<open>erase\<close>

definition erase :: "flash_h \<Rightarrow> env \<Rightarrow> u32 \<Rightarrow> u8 \<Rightarrow> qspi \<Rightarrow> bool \<times> qspi" where
  "erase K E address which q0 =
     (let (locked, q1) = mutex_timed_lock E (QSPI_TIMEOUT K) q0 in
      if locked then
        let sCommand = \<lparr>Instruction = WRITE_ENABLE K, Address = None,
              AddressSize = QSPI_ADDRESS_24_BITS,
              AlternateByteMode = QSPI_ALTERNATE_BYTES_NONE, AlternateBytesSize = None,
              DdrMode = QSPI_DDR_MODE_DISABLE, DdrHoldHalfCycle = QSPI_DDR_HHC_ANALOG_DELAY,
              SIOOMode = QSPI_SIOO_INST_EVERY_CMD, InstructionMode = QSPI_INSTRUCTION_1_LINE,
              AddressMode = QSPI_ADDRESS_NONE, DataMode = QSPI_DATA_NONE,
              DummyCycles = 0, NbData = None\<rparr>;
            q2 = HAL_QSPI_Abort E q1;
            (we_ok, q3) = HAL_QSPI_Command E sCommand (QSPI_TIMEOUT K) q2;
            (result, q4) =
              (if we_ok then
                 let sCommand = sCommand\<lparr>Instruction := which,
                       AddressMode := (if which = CHIP_ERASE K then QSPI_ADDRESS_NONE
                                       else QSPI_ADDRESS_1_LINE),
                       DataMode := QSPI_DATA_NONE, Address := Some address\<rparr>;
                     (er_ok, q3a) = HAL_QSPI_Command E sCommand (QSPI_TIMEOUT K) q3 in
                 if er_ok then
                   let sCommand = sCommand\<lparr>Instruction := READ_STATUS_REGISTER K,
                         AddressMode := QSPI_ADDRESS_NONE, DataMode := QSPI_DATA_1_LINE\<rparr>;
                       sConfig = \<lparr>Match = 0, Mask = 1, MatchMode = QSPI_MATCH_MODE_AND,
                         StatusBytesSize = 1, Interval = 0x10,
                         AutomaticStop = QSPI_AUTOMATIC_STOP_ENABLE\<rparr>;
                       (ap_ok, q3b) = HAL_QSPI_AutoPolling_IT E sCommand sConfig q3a in
                   if ap_ok then
                     semaphore_timed_wait E
                       (if which = CHIP_ERASE K then QSPI_CHIP_ERASE_TIMEOUT K
                        else QSPI_ERASE_TIMEOUT K) q3b
                   else (False, q3b)
                 else (False, q3a)
               else (False, q3));
            q5 = (if result = False then HAL_QSPI_Abort E q4 else q4)
        in (result, mutex_unlock E q5)
      else (False, q1))"

section \<open>qspi-winbond.cpp\<close>

subsection \<open>mode_quad\<close>

definition mode_quad :: "flash_h \<Rightarrow> env \<Rightarrow> qspi \<Rightarrow> bool \<times> qspi" where
  "mode_quad K E q0 =
     (let (locked, q1) = mutex_timed_lock E (QSPI_TIMEOUT K) q0 in
      if locked then
        let sCommand = \<lparr>Instruction = READ_STATUS_REGISTER_2, Address = None,
              AddressSize = QSPI_ADDRESS_24_BITS,
              AlternateByteMode = QSPI_ALTERNATE_BYTES_NONE, AlternateBytesSize = None,
              DdrMode = QSPI_DDR_MODE_DISABLE, DdrHoldHalfCycle = QSPI_DDR_HHC_ANALOG_DELAY,
              SIOOMode = QSPI_SIOO_INST_EVERY_CMD, InstructionMode = QSPI_INSTRUCTION_1_LINE,
              AddressMode = QSPI_ADDRESS_NONE, DataMode = QSPI_DATA_1_LINE,
              DummyCycles = 0, NbData = Some 1\<rparr>;
            (rd_ok, q2) = HAL_QSPI_Command E sCommand (QSPI_TIMEOUT K) q1;
            (result, q3) =
              (if rd_ok then
                 let (rcv_ok, buff, q2a) = HAL_QSPI_Receive E (QSPI_TIMEOUT K) q2;
                     datareg = buff 0 in
                 if rcv_ok then
                   if datareg AND 2 = 0 then
                     let sCommand = sCommand\<lparr>DataMode := QSPI_DATA_NONE,
                           Instruction := VOLATILE_SR_WRITE_ENABLE\<rparr>;
                         (ve_ok, q2b) = HAL_QSPI_Command E sCommand (QSPI_TIMEOUT K) q2a in
                     if ve_ok then
                       let sCommand = sCommand\<lparr>DataMode := QSPI_DATA_1_LINE,
                             Instruction := WRITE_STATUS_REGISTER_2\<rparr>;
                           (wr_ok, q2c) = HAL_QSPI_Command E sCommand (QSPI_TIMEOUT K) q2b in
                       if wr_ok then
                         let datareg = datareg OR 2 in
                         HAL_QSPI_Transmit E [datareg] (QSPI_TIMEOUT K) q2c
                       else (False, q2c)
                     else (False, q2b)
                   else (True, q2a)
                 else (False, q2a)
               else (False, q2))
        in (result, mutex_unlock E q3)
      else (False, q1))"

subsection \<open>memory_mapped\<close>

definition memory_mapped :: "flash_h \<Rightarrow> env \<Rightarrow> qspi \<Rightarrow> bool \<times> qspi" where
  "memory_mapped K E q0 =
     (let q1 = HAL_QSPI_Abort E q0;
          (locked, q2) = mutex_timed_lock E (QSPI_TIMEOUT K) q1 in
      if locked then
        let sCommand = \<lparr>Instruction = FAST_READ_QUAD_OUT K, Address = None,
              AddressSize = QSPI_ADDRESS_24_BITS,
              AlternateByteMode = QSPI_ALTERNATE_BYTES_4_LINES,
              AlternateBytesSize = Some QSPI_ALTERNATE_BYTES_8_BITS,
              DdrMode = QSPI_DDR_MODE_DISABLE, DdrHoldHalfCycle = QSPI_DDR_HHC_ANALOG_DELAY,
              SIOOMode = QSPI_SIOO_INST_EVERY_CMD, InstructionMode = QSPI_INSTRUCTION_1_LINE,
              AddressMode = QSPI_ADDRESS_1_LINE, DataMode = QSPI_DATA_4_LINES,
              DummyCycles = 6, NbData = None\<rparr>;
            sMemMappedCfg = \<lparr>TimeOutActivation = QSPI_TIMEOUT_COUNTER_DISABLE\<rparr>;
            (result, q3) = HAL_QSPI_MemoryMapped E sCommand sMemMappedCfg q2
        in (result, mutex_unlock E q3)
      else (False, q2))"

subsection \<open>read\<close>

text \<open>
  The destination buffer is the second component of the result: the bytes the receive
  delivered when the read succeeds, \<open>None\<close> (contents not determined) when it fails.
\<close>

definition read :: "flash_h \<Rightarrow> env \<Rightarrow> u32 \<Rightarrow> size_t \<Rightarrow> qspi \<Rightarrow> (bool \<times> u8 list option) \<times> qspi" where
  "read K E address count q0 =
     (let (locked, q1) = mutex_timed_lock E (QSPI_TIMEOUT K) q0 in
      if locked then
        let sCommand = \<lparr>Instruction = FAST_READ_QUAD_OUT K, Address = Some address,
              AddressSize = QSPI_ADDRESS_24_BITS,
              AlternateByteMode = QSPI_ALTERNATE_BYTES_4_LINES,
              AlternateBytesSize = Some QSPI_ALTERNATE_BYTES_8_BITS,
              DdrMode = QSPI_DDR_MODE_DISABLE, DdrHoldHalfCycle = QSPI_DDR_HHC_ANALOG_DELAY,
              SIOOMode = QSPI_SIOO_INST_EVERY_CMD, InstructionMode = QSPI_INSTRUCTION_1_LINE,
              AddressMode = QSPI_ADDRESS_1_LINE, DataMode = QSPI_DATA_4_LINES,
              DummyCycles = 6, NbData = Some count\<rparr>;
            q2 = HAL_QSPI_Abort E q1;
            (cmd_ok, q3) = HAL_QSPI_Command E sCommand (QSPI_TIMEOUT K) q2;
            (result, buff, q4) =
              (if cmd_ok then
                 let (rcv_ok, data, q3a) = HAL_QSPI_Receive_IT E q3 in
                 if rcv_ok then
                   let (sem_ok, q3b) = semaphore_timed_wait E (QSPI_TIMEOUT K) q3a in
                   if sem_ok then (True, Some (map data [0 ..< unat count]), q3b)
                   else (False, None, q3b)
                 else (False, None, q3a)
               else (False, None, q3));
            q5 = (if result = False then HAL_QSPI_Abort E q4 else q4)
        in ((result, buff), mutex_unlock E q5)
      else ((False, None), q1))"

subsection \<open>page_write\<close>

text \<open>
  The source pointer is the list of the bytes from the pointer on; the transmit sends
  the \<open>NbData\<close> bytes announced by the page-program command.
\<close>

definition page_write :: "flash_h \<Rightarrow> env \<Rightarrow> u32 \<Rightarrow> u8 list \<Rightarrow> size_t \<Rightarrow> qspi \<Rightarrow> bool \<times> qspi" where
  "page_write K E address buff count q0 =
     (let (locked, q1) = mutex_timed_lock E (QSPI_TIMEOUT K) q0 in
      if locked then
        let sCommand = \<lparr>Instruction = WRITE_ENABLE K, Address = None,
              AddressSize = QSPI_ADDRESS_24_BITS,
              AlternateByteMode = QSPI_ALTERNATE_BYTES_NONE, AlternateBytesSize = None,
              DdrMode = QSPI_DDR_MODE_DISABLE, DdrHoldHalfCycle = QSPI_DDR_HHC_ANALOG_DELAY,
              SIOOMode = QSPI_SIOO_INST_EVERY_CMD, InstructionMode = QSPI_INSTRUCTION_1_LINE,
              AddressMode = QSPI_ADDRESS_NONE, DataMode = QSPI_DATA_NONE,
              DummyCycles = 0, NbData = None\<rparr>;
            (we_ok, q2) = HAL_QSPI_Command E sCommand (QSPI_TIMEOUT K) q1;
            (result, q3) =
              (if we_ok then
                 let sCommand = sCommand\<lparr>Instruction := QUAD_PAGE_PROGRAM K,
                       AddressMode := QSPI_ADDRESS_1_LINE, DataMode := QSPI_DATA_4_LINES,
                       Address := Some address, NbData := Some count\<rparr>;
                     (pp_ok, q2a) = HAL_QSPI_Command E sCommand (QSPI_TIMEOUT K) q2 in
                 if pp_ok then
                   let (tx_ok, q2b) =
                         HAL_QSPI_Transmit E (take (unat count) buff) (QSPI_TIMEOUT K) q2a in
                   if tx_ok then
                     let sCommand = sCommand\<lparr>AddressMode := QSPI_ADDRESS_NONE,
                           DataMode := QSPI_DATA_1_LINE,
                           Instruction := READ_STATUS_REGISTER K\<rparr>;
                         sConfig = \<lparr>Match = 0, Mask = 1, MatchMode = QSPI_MATCH_MODE_AND,
                           StatusBytesSize = 1, Interval = 0x10,
                           AutomaticStop = QSPI_AUTOMATIC_STOP_ENABLE\<rparr>;
                         (ap_ok, q2c) = HAL_QSPI_AutoPolling_IT E sCommand sConfig q2b in
                     if ap_ok then semaphore_timed_wait E (QSPI_TIMEOUT K) q2c
                     else (False, q2c)
                   else (False, q2b)
                 else (False, q2a)
               else (False, q2));
            q4 = (if result = False then HAL_QSPI_Abort E q3 else q3)
        in (result, mutex_unlock E q4)
      else (False, q1))"

section \<open>Observing a run\<close>

text \<open>The calls an operation added to the trace.\<close>

definition events_since :: "qspi \<Rightarrow> qspi \<Rightarrow> event list" where
  "events_since q q' = drop (length (trace q)) (trace q')"

text \<open>The calls that reach the QUADSPI command unit: all but the mutex and the semaphore.\<close>

fun touches_hw :: "event \<Rightarrow> bool" where
  "touches_hw (MutexTimedLock t) = False"
| "touches_hw MutexUnlock = False"
| "touches_hw (SemTimedWait t) = False"
| "touches_hw e = True"

fun is_mutex :: "event \<Rightarrow> bool" where
  "is_mutex (MutexTimedLock t) = True"
| "is_mutex MutexUnlock = True"
| "is_mutex e = False"

text \<open>The descriptors given to \<open>HAL_QSPI_Command\<close>, and the bounds of the semaphore waits.\<close>

fun commands_of :: "event list \<Rightarrow> QSPI_CommandTypeDef list" where
  "commands_of [] = []"
| "commands_of (Command c t # es) = c # commands_of es"
| "commands_of (e # es) = commands_of es"



text \<open>The identity of the device as the object holds it.\<close>

definition identity :: "qspi \<Rightarrow> u8 \<times> u8 \<times> u8 \<times> bool" where
  "identity q = (manufacturer_ID q, memory_type q, memory_capacity q, valid_mem_ID q)"

section \<open>The specification's page split\<close>

text \<open>
  The split as the specification words it: while bytes remain, the next chunk starts at
  the current address, takes \<open>min(count, 256 - (address & 0xFF))\<close> bytes from the
  current position in the buffer, and the rest follows. A chunk is the address, the
  source pointer and the length.
\<close>

type_synonym chunk = "u32 \<times> u8 list \<times> nat"

function page_chunks :: "u32 \<Rightarrow> u8 list \<Rightarrow> nat \<Rightarrow> chunk list" where
  "page_chunks address buff count =
     (if count = 0 then []
      else let n = min count (256 - unat (address AND 0xFF))
           in (address, buff, n) # page_chunks (address + of_nat n) (drop n buff) (count - n))"
  by pat_completeness auto
termination
proof (relation "measure (\<lambda>(address, buff, count). count)", goal_cases)
  case 1
  show ?case by simp
next
  case (2 address buff count n)
  have "unat (address AND 0xFF) \<le> unat (0xFF :: u32)"
    by (rule word_and_le1 [THEN word_le_nat_alt [THEN iffD1]])
  with 2 show ?case by simp
qed

declare page_chunks.simps [simp del]

text \<open>Issuing chunks in order to a page writer, stopping at the first one that fails.\<close>

fun issue :: "page_writer \<Rightarrow> chunk list \<Rightarrow> qspi \<Rightarrow> bool \<times> qspi" where
  "issue pw [] q = (True, q)"
| "issue pw ((address, buff, n) # cs) q =
     (let (r, q') = pw address buff (of_nat n) q
      in if r then issue pw cs q' else (False, q'))"

text \<open>Where chunk \<open>k\<close> of a split starts: the lengths of the chunks before it.\<close>

definition chunk_offset :: "chunk list \<Rightarrow> nat \<Rightarrow> nat" where
  "chunk_offset cs k = sum_list (map (\<lambda>(address, buff, n). n) (take k cs))"


section \<open>Concrete inputs\<close>

text \<open>
  Sample values for the constants of the absent header: the JEDEC-standard opcodes of
  the W25Q family and timeouts in ticks. They serve to run the model on concrete inputs;
  every general theorem below holds for any values.
\<close>

definition flash_h_sample :: flash_h where
  "flash_h_sample = \<lparr>JEDEC_ID = 0x9F, WRITE_ENABLE = 0x06, READ_STATUS_REGISTER = 0x05,
     FAST_READ_QUAD_OUT = 0x6B, QUAD_PAGE_PROGRAM = 0x32, CHIP_ERASE = 0xC7,
     QSPI_TIMEOUT = 100, QSPI_ERASE_TIMEOUT = 2000, QSPI_CHIP_ERASE_TIMEOUT = 200000\<rparr>"

text \<open>A freshly constructed object: nothing identified, no profile, no call made.\<close>

definition qspi_fresh :: qspi where
  "qspi_fresh = \<lparr>manufacturer_ID = 0, memory_type = 0, memory_capacity = 0,
     valid_mem_ID = False, pimpl = None, allocated = 0, trace = []\<rparr>"

text \<open>
  A world where every call succeeds and every receive delivers the identity of a
  W25Q128 (\<open>EF 40 18\<close>); the same world with the \<open>k\<close>-th call failing; and a world
  where every call fails.
\<close>

definition env_ok :: env where
  "env_ok = \<lparr>ok = (\<lambda>i. True),
     rx = (\<lambda>i j. if j = 0 then 0xEF else if j = 1 then 0x40 else 0x18)\<rparr>"

definition env_fail_at :: "nat \<Rightarrow> env" where
  "env_fail_at k = env_ok\<lparr>ok := (\<lambda>i. i \<noteq> k)\<rparr>"

definition env_fail_all :: env where
  "env_fail_all = env_ok\<lparr>ok := (\<lambda>i. False)\<rparr>"

text \<open>A world where every call succeeds and every receive delivers the byte \<open>s\<close>.\<close>

definition env_status :: "u8 \<Rightarrow> env" where
  "env_status s = env_ok\<lparr>rx := (\<lambda>i j. s)\<rparr>"

text \<open>The definitions of the calls to the outside, to unfold together.\<close>

lemmas outside_calls =
  call_def mutex_timed_lock_def mutex_unlock_def semaphore_timed_wait_def
  HAL_QSPI_Abort_def HAL_QSPI_Command_def HAL_QSPI_Receive_def HAL_QSPI_Receive_IT_def
  HAL_QSPI_Transmit_def HAL_QSPI_AutoPolling_IT_def HAL_QSPI_MemoryMapped_def

lemmas sample_inputs =
  flash_h_sample_def qspi_fresh_def env_ok_def env_fail_at_def env_fail_all_def env_status_def

section \<open>The chunk size of write\<close>

lemma unat_low_byte: "unat ((a::u32) AND 0xFF) = unat a mod 256"
proof -
  have "(0xFF::u32) = mask 8"
    by (simp add: mask_eq_exp_minus_1)
  then have "a AND 0xFF = take_bit 8 a"
    by (simp add: take_bit_eq_mask)
  then show ?thesis
    by (simp add: unsigned_take_bit_eq take_bit_eq_mod unat_mod)
qed

lemma low_byte_less: "unat ((a::u32) AND 0xFF) < 256"
  by (simp add: unat_low_byte)

lemma unat_page_room: "unat (0x100 - ((a::u32) AND 0xFF)) = 256 - unat (a AND 0xFF)"
proof -
  have "a AND 0xFF \<le> 0x100"
    by (simp add: word_le_nat_alt unat_low_byte)
  then have "unat (0x100 - (a AND 0xFF)) = unat (0x100::u32) - unat (a AND 0xFF)"
    by (rule unat_sub)
  then show ?thesis by simp
qed

lemma unat_in_block_count:
  "unat (in_block_count a c) = min (unat c) (256 - unat (a AND 0xFF))"
  using low_byte_less [of a] unfolding in_block_count_def Let_def
  by (simp add: word_less_nat_alt unat_page_room unat_eq_0 [symmetric])

lemma in_block_count_le: "in_block_count a c \<le> c"
  by (simp add: word_le_nat_alt unat_in_block_count)

lemma unat_remaining: "unat (c - in_block_count a c) = unat c - unat (in_block_count a c)"
  using in_block_count_le by (rule unat_sub)

text \<open>
  Claim C10. In \<open>qspi::write\<close>, for every address the initial chunk-size computation
  \<open>0x100 - (address & 0xFF)\<close> yields a value from 1 to 256, so it is never 0 and the
  branch taken when it is 0 is unreachable; the chunk length the loop uses is the
  minimum of the remaining count and \<open>256 - (address & 0xFF)\<close>, at page-aligned
  addresses as at any other (and for every count, 0 included).
\<close>

theorem in_block_count_is_min:
  "1 \<le> unat (0x100 - (address AND 0xFF)) \<and> unat (0x100 - (address AND 0xFF)) \<le> 256
   \<and> 0x100 - (address AND 0xFF) \<noteq> 0
   \<and> unat (in_block_count address count) = min (unat count) (256 - unat (address AND 0xFF))
   \<and> in_block_count address count
       = (if 0x100 - (address AND 0xFF) > count then count else 0x100 - (address AND 0xFF))"
proof -
  have room: "unat (0x100 - (address AND 0xFF)) = 256 - unat (address AND 0xFF)"
    by (rule unat_page_room)
  have less: "unat (address AND 0xFF) < 256"
    by (rule low_byte_less)
  from room less have pos: "1 \<le> unat (0x100 - (address AND 0xFF))" by simp
  from room have le: "unat (0x100 - (address AND 0xFF)) \<le> 256" by simp
  from pos have nz: "0x100 - (address AND 0xFF) \<noteq> 0"
    by (auto simp: unat_eq_0 [symmetric])
  have eq: "in_block_count address count
       = (if 0x100 - (address AND 0xFF) > count then count else 0x100 - (address AND 0xFF))"
    using nz by (simp add: in_block_count_def Let_def)
  show ?thesis
    using pos le nz eq unat_in_block_count by blast
qed

section \<open>The loop of write issues the specification's chunks\<close>

lemma write_loop_issue:
  "count \<noteq> 0 \<Longrightarrow> write_loop pw address buff count q
     = issue pw (page_chunks address buff (unat count)) q"
proof (induction pw address buff count q rule: write_loop.induct)
  case (1 pw address buff count q)
  let ?n = "in_block_count address count"
  have n: "unat ?n = min (unat count) (256 - unat (address AND 0xFF))"
    by (rule unat_in_block_count)
  have cnz: "unat count \<noteq> 0"
    using "1.prems" by (simp add: unat_eq_0)
  have rest: "unat (count - ?n) = unat count - unat ?n"
    by (rule unat_remaining)
  obtain r q' where pw: "pw address buff ?n q = (r, q')"
    by (cases "pw address buff ?n q")
  have chunks: "page_chunks address buff (unat count)
      = (address, buff, unat ?n)
        # page_chunks (address + ?n) (drop (unat ?n) buff) (unat (count - ?n))"
    using cnz by (subst page_chunks.simps) (simp add: n [symmetric] rest Let_def)
  show ?case
  proof (cases "r \<and> count - ?n \<noteq> 0")
    case True
    then have "write_loop pw (address + ?n) (drop (unat ?n) buff) (count - ?n) q'
        = issue pw (page_chunks (address + ?n) (drop (unat ?n) buff) (unat (count - ?n))) q'"
      using "1.IH" [OF refl pw [symmetric] refl] by simp
    then show ?thesis
      using True pw by (subst write_loop.simps) (simp add: chunks Let_def)
  next
    case False
    then show ?thesis
      using pw
      by (subst write_loop.simps) (auto simp add: chunks Let_def page_chunks.simps [of _ _ 0])
  qed
qed

section \<open>Properties of the page split\<close>

lemma page_chunks_none: "page_chunks a b 0 = []"
  by (simp add: page_chunks.simps)

lemma page_chunks_step:
  "0 < c \<Longrightarrow> page_chunks a b c =
     (a, b, min c (256 - unat (a AND 0xFF)))
     # page_chunks (a + of_nat (min c (256 - unat (a AND 0xFF))))
         (drop (min c (256 - unat (a AND 0xFF))) b) (c - min c (256 - unat (a AND 0xFF)))"
  by (subst page_chunks.simps) (simp add: Let_def)

lemma page_chunks_bounds:
  "(a', b', n) \<in> set (page_chunks a b c) \<Longrightarrow>
     1 \<le> n \<and> n \<le> 256 \<and> unat (a' AND 0xFF) + n \<le> 256"
proof (induction a b c rule: page_chunks.induct)
  case (1 a b c)
  show ?case
  proof (cases "c = 0")
    case True
    with "1.prems" show ?thesis by (simp add: page_chunks_none)
  next
    case False
    let ?n = "min c (256 - unat (a AND 0xFF))"
    from False "1.prems" have "(a', b', n) = (a, b, ?n)
        \<or> (a', b', n) \<in> set (page_chunks (a + of_nat ?n) (drop ?n b) (c - ?n))"
      by (simp add: page_chunks_step)
    then show ?thesis
    proof
      assume "(a', b', n) = (a, b, ?n)"
      then show ?thesis using False low_byte_less [of a] by auto
    next
      assume "(a', b', n) \<in> set (page_chunks (a + of_nat ?n) (drop ?n b) (c - ?n))"
      then show ?thesis using "1.IH" [OF False refl] by simp
    qed
  qed
qed

lemma page_chunks_concat:
  "concat (map (\<lambda>(a', b', n). take n b') (page_chunks a b c)) = take c b"
proof (induction a b c rule: page_chunks.induct)
  case (1 a b c)
  show ?case
  proof (cases "c = 0")
    case True
    then show ?thesis by (simp add: page_chunks_none)
  next
    case False
    let ?n = "min c (256 - unat (a AND 0xFF))"
    have "take ?n b @ take (c - ?n) (drop ?n b) = take (?n + (c - ?n)) b"
      by (simp only: take_add)
    moreover have "?n + (c - ?n) = c" by simp
    ultimately show ?thesis
      using False "1.IH" [OF False refl] by (simp add: page_chunks_step)
  qed
qed

lemma chunk_offset_0: "chunk_offset cs 0 = 0"
  by (simp add: chunk_offset_def)

lemma chunk_offset_Suc: "chunk_offset ((a, b, n) # cs) (Suc k) = n + chunk_offset cs k"
  by (simp add: chunk_offset_def)

lemma page_chunks_nth:
  "k < length (page_chunks a b c) \<Longrightarrow>
     page_chunks a b c ! k =
       (a + of_nat (chunk_offset (page_chunks a b c) k),
        drop (chunk_offset (page_chunks a b c) k) b,
        min (c - chunk_offset (page_chunks a b c) k)
            (256 - unat ((a + of_nat (chunk_offset (page_chunks a b c) k)) AND 0xFF)))"
proof (induction a b c arbitrary: k rule: page_chunks.induct)
  case (1 a b c)
  show ?case
  proof (cases "c = 0")
    case True
    with "1.prems" show ?thesis by (simp add: page_chunks_none)
  next
    case False
    let ?n = "min c (256 - unat (a AND 0xFF))"
    let ?rest = "page_chunks (a + of_nat ?n) (drop ?n b) (c - ?n)"
    have step: "page_chunks a b c = (a, b, ?n) # ?rest"
      using False by (simp add: page_chunks_step)
    show ?thesis
    proof (cases k)
      case 0
      then show ?thesis by (simp add: step chunk_offset_0)
    next
      case (Suc j)
      with "1.prems" have j: "j < length ?rest" by (simp add: step)
      have "?rest ! j =
         (a + of_nat ?n + of_nat (chunk_offset ?rest j),
          drop (chunk_offset ?rest j) (drop ?n b),
          min (c - ?n - chunk_offset ?rest j)
              (256 - unat ((a + of_nat ?n + of_nat (chunk_offset ?rest j)) AND 0xFF)))"
        using "1.IH" [OF False refl j] .
      then show ?thesis
        by (simp add: step Suc chunk_offset_Suc add.assoc add.commute)
    qed
  qed
qed

lemma page_chunks_total:
  "chunk_offset (page_chunks a b c) (length (page_chunks a b c)) = c"
proof (induction a b c rule: page_chunks.induct)
  case (1 a b c)
  show ?case
  proof (cases "c = 0")
    case True
    then show ?thesis by (simp add: page_chunks_none chunk_offset_0)
  next
    case False
    then show ?thesis
      using "1.IH" [OF False refl] by (simp add: page_chunks_step chunk_offset_Suc)
  qed
qed

text \<open>Bytes that share a page: adding less than the room left keeps the page number.\<close>

lemma div_stable: "(x::nat) mod 256 + j < 256 \<Longrightarrow> (x + j) div 256 = x div 256"
proof -
  assume r: "x mod 256 + j < 256"
  have "x + j = (x mod 256 + j) + x div 256 * 256" by simp
  then have "(x + j) div 256 = (x mod 256 + j) div 256 + x div 256"
    by (metis div_mult_self1 zero_neq_numeral add.commute)
  with r show ?thesis by simp
qed

lemma no_overflow:
  "(x::nat) < 4294967296 \<Longrightarrow> x mod 256 + j < 256 \<Longrightarrow> x + j < 4294967296"
proof -
  assume x: "x < 4294967296" and r: "x mod 256 + j < 256"
  have "x div 256 < 16777216" using x by simp
  then have "x div 256 * 256 + 256 \<le> 4294967296" by simp
  moreover have "x + j = (x mod 256 + j) + x div 256 * 256" by simp
  ultimately show ?thesis using r by linarith
qed

lemma same_page:
  assumes "unat ((a::u32) AND 0xFF) + n \<le> 256" "j < n"
  shows "drop_bit 8 (a + of_nat j) = drop_bit 8 a"
proof -
  have r: "unat a mod 256 + j < 256"
    using assms by (simp add: unat_low_byte)
  have "unat a < 4294967296"
    using unsigned_less [of a] by simp
  with r have bound: "unat a + j < 4294967296"
    by (simp add: no_overflow)
  then have j: "unat (of_nat j :: u32) = j"
    by (simp add: unat_of_nat)
  have sum: "unat (a + of_nat j) = unat a + j"
    using bound j by (simp add: unat_add_lem [THEN iffD1])
  have "(unat a + j) div 256 = unat a div 256"
    using r by (rule div_stable)
  then have "unat (drop_bit 8 (a + of_nat j)) = unat (drop_bit 8 a)"
    by (simp add: drop_bit_eq_div unat_div sum)
  then show ?thesis
    by (simp add: word_unat_eq_iff)
qed

section \<open>write: the split into pages\<close>

text \<open>
  Claim C1. For every starting address and every count of at least 1, \<open>qspi::write\<close>
  (after its abort) hands to the page writer exactly the chunks of the specification's
  split, in order, stopping at the first chunk the page writer fails: each chunk is
  \<open>min(remaining count, 256 - (address & 0xFF))\<close> bytes long, which is between 1 and
  256; a chunk never crosses a 256-byte page boundary (its offset in the page plus its
  length is at most 256, so all its bytes have the page number of its first byte);
  chunk \<open>k\<close> starts at the original address plus the lengths of the chunks before it
  and takes its bytes from the buffer at that same offset; the lengths add up to the
  count and the chunks' bytes concatenated are the first \<open>count\<close> bytes of the buffer.
  In particular \<open>write(0x0F0, data, 32)\<close> issues address \<open>0x0F0\<close> length 16, then address
  \<open>0x100\<close> length 16. Addresses are 32-bit and wrap around, as in the code.
\<close>

theorem write_issues_page_chunks:
  assumes "count \<noteq> 0"
  shows "let cs = page_chunks address buff (unat count) in
     qspi_write E pw address buff count q = issue pw cs (HAL_QSPI_Abort E q)
   \<and> (\<forall>(a, b, n) \<in> set cs. 1 \<le> n \<and> n \<le> 256 \<and> unat (a AND 0xFF) + n \<le> 256
         \<and> (\<forall>j<n. drop_bit 8 (a + of_nat j) = drop_bit 8 a))
   \<and> (\<forall>k < length cs. cs ! k =
         (address + of_nat (chunk_offset cs k), drop (chunk_offset cs k) buff,
          min (unat count - chunk_offset cs k)
              (256 - unat ((address + of_nat (chunk_offset cs k)) AND 0xFF))))
   \<and> chunk_offset cs (length cs) = unat count
   \<and> concat (map (\<lambda>(a, b, n). take n b) cs) = take (unat count) buff
   \<and> page_chunks 0x0F0 data 32 = [(0x0F0, data, 16), (0x100, drop 16 data, 16)]
   \<and> qspi_write E pw 0x0F0 data 32 q
       = issue pw [(0x0F0, data, 16), (0x100, drop 16 data, 16)] (HAL_QSPI_Abort E q)"
proof -
  let ?cs = "page_chunks address buff (unat count)"
  have run: "qspi_write E pw address buff count q = issue pw ?cs (HAL_QSPI_Abort E q)"
    using assms by (simp add: qspi_write_def write_loop_issue)
  have bounds: "\<forall>(a, b, n) \<in> set ?cs. 1 \<le> n \<and> n \<le> 256 \<and> unat (a AND 0xFF) + n \<le> 256
         \<and> (\<forall>j<n. drop_bit 8 (a + of_nat j) = drop_bit 8 a)"
    using page_chunks_bounds same_page by blast
  have nth: "\<forall>k < length ?cs. ?cs ! k =
         (address + of_nat (chunk_offset ?cs k), drop (chunk_offset ?cs k) buff,
          min (unat count - chunk_offset ?cs k)
              (256 - unat ((address + of_nat (chunk_offset ?cs k)) AND 0xFF)))"
    using page_chunks_nth by blast
  have total: "chunk_offset ?cs (length ?cs) = unat count"
    by (rule page_chunks_total)
  have cat: "concat (map (\<lambda>(a, b, n). take n b) ?cs) = take (unat count) buff"
    by (rule page_chunks_concat)
  have scenario: "page_chunks 0x0F0 data 32 = [(0x0F0, data, 16), (0x100, drop 16 data, 16)]"
    by (simp add: page_chunks_step page_chunks_none)
  have "qspi_write E pw 0x0F0 data 32 q
       = issue pw (page_chunks 0x0F0 data (unat (32 :: size_t))) (HAL_QSPI_Abort E q)"
    by (simp add: qspi_write_def write_loop_issue)
  then have scenario_run: "qspi_write E pw 0x0F0 data 32 q
       = issue pw [(0x0F0, data, 16), (0x100, drop 16 data, 16)] (HAL_QSPI_Abort E q)"
    by (simp add: scenario)
  show ?thesis
    unfolding Let_def using run bounds nth total cat scenario scenario_run by blast
qed

theorem write_issues_page_chunks_witness:
  "(40 :: size_t) \<noteq> 0
   \<and> page_chunks 0x1F0 (replicate 40 0xAB) 40
       = [(0x1F0, replicate 40 0xAB, 16), (0x200, replicate 24 0xAB, 24)]
   \<and> qspi_write env_ok (page_write flash_h_sample env_ok) 0x1F0 (replicate 40 0xAB) 40 qspi_fresh
       = issue (page_write flash_h_sample env_ok)
           [(0x1F0, replicate 40 0xAB, 16), (0x200, replicate 24 0xAB, 24)]
           (HAL_QSPI_Abort env_ok qspi_fresh)"
proof -
  have nz: "(40 :: size_t) \<noteq> 0" by simp
  have cs: "page_chunks 0x1F0 (replicate 40 0xAB) 40
       = [(0x1F0, replicate 40 0xAB, 16), (0x200, replicate 24 0xAB, 24)]"
    by (simp add: page_chunks_step page_chunks_none)
  show ?thesis
    using nz cs
      write_issues_page_chunks [OF nz, of "0x1F0" "replicate 40 0xAB" env_ok
        "page_write flash_h_sample env_ok" qspi_fresh]
    by (simp add: Let_def)
qed

section \<open>write: a count of zero\<close>

text \<open>
  Claim C9. A call of \<open>qspi::write\<close> with count 0 is not a no-op: for every address the
  loop runs once and calls the page writer once with length 0, and the result of
  \<open>write\<close> is the result of that call. With the Winbond \<open>page_write\<close> and a device that
  accepts every call, this issues a write-enable and a page-program command announcing
  0 bytes, an empty transmit and the status poll.
\<close>

theorem write_zero_count:
  "qspi_write E pw address buff 0 q = pw address buff 0 (HAL_QSPI_Abort E q)
   \<and> fst (qspi_write env_ok (page_write K env_ok) address buff 0 q) = True
   \<and> (\<exists>we pp poll cfg.
        events_since q (snd (qspi_write env_ok (page_write K env_ok) address buff 0 q))
          = [Abort, MutexTimedLock (QSPI_TIMEOUT K), Command we (QSPI_TIMEOUT K),
             Command pp (QSPI_TIMEOUT K), Transmit [] (QSPI_TIMEOUT K),
             AutoPollingIT poll cfg, SemTimedWait (QSPI_TIMEOUT K), MutexUnlock]
        \<and> Instruction we = WRITE_ENABLE K \<and> Instruction pp = QUAD_PAGE_PROGRAM K
        \<and> Address pp = Some address \<and> NbData pp = Some 0)"
proof -
  have n: "in_block_count address 0 = 0"
    using unat_in_block_count [of address 0] by (simp add: unat_eq_0)
  have loop: "write_loop pw address buff 0 q' = pw address buff 0 q'" for pw q'
    by (subst write_loop.simps) (simp add: n Let_def split: prod.splits)
  then have general: "qspi_write E pw address buff 0 q = pw address buff 0 (HAL_QSPI_Abort E q)"
    by (simp add: qspi_write_def)
  have winbond: "qspi_write env_ok (page_write K env_ok) address buff 0 q
      = page_write K env_ok address buff 0 (HAL_QSPI_Abort env_ok q)"
    by (simp add: qspi_write_def loop)
  show ?thesis
    unfolding winbond
    using general
    by (simp add: page_write_def outside_calls env_ok_def events_since_def Let_def)
qed

section \<open>Identification\<close>

text \<open>Positions in the trace, as successors.\<close>

lemma call_index:
  "(n::nat) + 3 = Suc (Suc (Suc n))"
  "(n::nat) + 4 = Suc (Suc (Suc (Suc n)))"
  "(n::nat) + 5 = Suc (Suc (Suc (Suc (Suc n))))"
  "(n::nat) + 6 = Suc (Suc (Suc (Suc (Suc (Suc n)))))"
  by simp_all

text \<open>
  Claim C6. \<open>read_JEDEC_ID\<close> updates the identity all or nothing. It succeeds exactly
  when the lock, the command, the start of the receive and the wait for completion all
  succeed; then the three identity fields are the three received bytes and the valid
  flag is set, in one update of the object. When any of the four fails (lock timeout,
  command failure, receive failure, completion timeout) it returns failure and the
  three fields and the valid flag are exactly what they were before the call.
\<close>

theorem read_JEDEC_ID_all_or_nothing:
  "let i = length (trace q);
       success = (ok E i \<and> ok E (i + 2) \<and> ok E (i + 3) \<and> ok E (i + 4));
       r = read_JEDEC_ID K E q
   in fst r = success
      \<and> identity (snd r) =
          (if success then (rx E (i + 3) 0, rx E (i + 3) 1, rx E (i + 3) 2, True)
           else identity q)"
  by (simp add: read_JEDEC_ID_def outside_calls identity_def Let_def call_index)

theorem read_JEDEC_ID_all_or_nothing_witness:
  "identity (snd (read_JEDEC_ID flash_h_sample env_ok qspi_fresh)) = (0xEF, 0x40, 0x18, True)
   \<and> fst (read_JEDEC_ID flash_h_sample (env_fail_at 4) qspi_fresh) = False
   \<and> identity (snd (read_JEDEC_ID flash_h_sample (env_fail_at 4) qspi_fresh))
       = identity qspi_fresh"
  using read_JEDEC_ID_all_or_nothing [of qspi_fresh env_ok flash_h_sample]
    read_JEDEC_ID_all_or_nothing [of qspi_fresh "env_fail_at 4" flash_h_sample]
  by (simp add: Let_def sample_inputs)

section \<open>Quad mode\<close>

text \<open>
  Claim C5. \<open>mode_quad\<close> is idempotent: whenever the lock is obtained, the read of
  status register 2 succeeds (command and receive) and the quad-enable bit (bit 1) is
  already set, it returns success at once; the only command it issues is the read of
  status register 2, so no volatile write enable and no write of the status register.
\<close>

theorem mode_quad_idempotent:
  assumes "ok E (length (trace q))" and "ok E (length (trace q) + 1)"
    and "ok E (length (trace q) + 2)" and "rx E (length (trace q) + 2) 0 AND 2 \<noteq> 0"
  shows "fst (mode_quad K E q) = True
    \<and> (\<exists>c. events_since q (snd (mode_quad K E q))
          = [MutexTimedLock (QSPI_TIMEOUT K), Command c (QSPI_TIMEOUT K),
             Receive (QSPI_TIMEOUT K), MutexUnlock]
        \<and> Instruction c = READ_STATUS_REGISTER_2)
    \<and> map Instruction (commands_of (events_since q (snd (mode_quad K E q))))
        = [READ_STATUS_REGISTER_2]
    \<and> VOLATILE_SR_WRITE_ENABLE \<notin> set (map Instruction (commands_of (events_since q (snd (mode_quad K E q)))))
    \<and> WRITE_STATUS_REGISTER_2 \<notin> set (map Instruction (commands_of (events_since q (snd (mode_quad K E q)))))"
  using assms
  by (simp add: mode_quad_def outside_calls events_since_def Let_def
      READ_STATUS_REGISTER_2_def VOLATILE_SR_WRITE_ENABLE_def WRITE_STATUS_REGISTER_2_def)

theorem mode_quad_idempotent_witness:
  "fst (mode_quad flash_h_sample (env_status 0x02) qspi_fresh) = True
   \<and> map Instruction (commands_of (trace (snd (mode_quad flash_h_sample (env_status 0x02) qspi_fresh))))
       = [0x35]"
  using mode_quad_idempotent [of "env_status 0x02" qspi_fresh flash_h_sample]
  by (simp add: sample_inputs events_since_def READ_STATUS_REGISTER_2_def)

section \<open>A lock timeout\<close>

text \<open>
  Claim C7, that an operation whose lock acquisition fails returns failure without any
  interaction with the command unit, does not hold of \<open>memory_mapped\<close>. Its abort
  comes before the attempt to lock, outside the mutex: on a device that accepts the
  abort and lets the lock time out, \<open>memory_mapped\<close> returns failure having made two
  calls, the abort and the failed lock, so the command unit has received an abort.
\<close>

theorem memory_mapped_lock_timeout_after_abort:
  "fst (memory_mapped flash_h_sample (env_fail_at 1) qspi_fresh) = False
   \<and> trace (snd (memory_mapped flash_h_sample (env_fail_at 1) qspi_fresh))
       = [Abort, MutexTimedLock 100]
   \<and> filter touches_hw (trace (snd (memory_mapped flash_h_sample (env_fail_at 1) qspi_fresh)))
       = [Abort]"
  by (simp add: memory_mapped_def outside_calls sample_inputs Let_def)

text \<open>
  \<open>qspi::write\<close> does the same: it aborts before the page writer attempts the lock, so
  a write whose first page program meets a lock timeout has already aborted.
\<close>

lemma write_lock_timeout_after_abort:
  "fst (qspi_write (env_fail_at 1) (page_write flash_h_sample (env_fail_at 1))
          0x100 [1, 2, 3] 3 qspi_fresh) = False
   \<and> trace (snd (qspi_write (env_fail_at 1) (page_write flash_h_sample (env_fail_at 1))
          0x100 [1, 2, 3] 3 qspi_fresh))
       = [Abort, MutexTimedLock 100]"
proof -
  have "(3 :: size_t) \<noteq> 0" by simp
  then have "qspi_write (env_fail_at 1) (page_write flash_h_sample (env_fail_at 1))
          0x100 [1, 2, 3] 3 qspi_fresh
      = issue (page_write flash_h_sample (env_fail_at 1)) (page_chunks 0x100 [1, 2, 3] (unat (3 :: size_t)))
          (HAL_QSPI_Abort (env_fail_at 1) qspi_fresh)"
    by (simp add: qspi_write_def write_loop_issue)
  then show ?thesis
    by (simp add: page_chunks_step page_chunks_none page_write_def outside_calls
        sample_inputs Let_def)
qed

text \<open>
  The other five operations attempt the lock first: when it times out they return
  failure, the failed attempt is their only call and the object is otherwise as it was.
\<close>

lemma lock_first_operations_lock_timeout:
  "\<not> ok E (length (trace q)) \<Longrightarrow>
      read_JEDEC_ID K E q = (False, q\<lparr>trace := trace q @ [MutexTimedLock (QSPI_TIMEOUT K)]\<rparr>)
    \<and> mode_quad K E q = (False, q\<lparr>trace := trace q @ [MutexTimedLock (QSPI_TIMEOUT K)]\<rparr>)
    \<and> read K E address count q
        = ((False, None), q\<lparr>trace := trace q @ [MutexTimedLock (QSPI_TIMEOUT K)]\<rparr>)
    \<and> page_write K E address buff count q
        = (False, q\<lparr>trace := trace q @ [MutexTimedLock (QSPI_TIMEOUT K)]\<rparr>)
    \<and> erase K E address which q
        = (False, q\<lparr>trace := trace q @ [MutexTimedLock (QSPI_TIMEOUT K)]\<rparr>)"
  by (simp add: read_JEDEC_ID_def mode_quad_def read_def page_write_def erase_def
      outside_calls Let_def)

section \<open>erase: address and timeout\<close>



section \<open>The lock and the steps of an operation\<close>




section \<open>Abort on failure\<close>

text \<open>
  Claim C2, that every failing step of every operation is followed by an abort before
  the mutex is released, does not hold of \<open>mode_quad\<close>. On a device that grants the lock
  and rejects the first command (the read of status register 2), \<open>mode_quad\<close> returns
  failure having made three calls: the lock, the rejected command and the unlock. No
  abort is issued.
\<close>

theorem mode_quad_failure_without_abort:
  "fst (mode_quad flash_h_sample (env_fail_at 1) qspi_fresh) = False
   \<and> filter touches_hw (trace (snd (mode_quad flash_h_sample (env_fail_at 1) qspi_fresh)))
       = [Command \<lparr>Instruction = 0x35, Address = None, AddressSize = QSPI_ADDRESS_24_BITS,
            AlternateByteMode = QSPI_ALTERNATE_BYTES_NONE, AlternateBytesSize = None,
            DdrMode = QSPI_DDR_MODE_DISABLE, DdrHoldHalfCycle = QSPI_DDR_HHC_ANALOG_DELAY,
            SIOOMode = QSPI_SIOO_INST_EVERY_CMD, InstructionMode = QSPI_INSTRUCTION_1_LINE,
            AddressMode = QSPI_ADDRESS_NONE, DataMode = QSPI_DATA_1_LINE,
            DummyCycles = 0, NbData = Some 1\<rparr> 100]
   \<and> filter is_mutex (trace (snd (mode_quad flash_h_sample (env_fail_at 1) qspi_fresh)))
       = [MutexTimedLock 100, MutexUnlock]
   \<and> last (trace (snd (mode_quad flash_h_sample (env_fail_at 1) qspi_fresh))) = MutexUnlock
   \<and> Abort \<notin> set (trace (snd (mode_quad flash_h_sample (env_fail_at 1) qspi_fresh)))"
  by (simp add: mode_quad_def outside_calls sample_inputs Let_def READ_STATUS_REGISTER_2_def)

text \<open>
  \<open>mode_quad\<close> has no abort on any path, and \<open>memory_mapped\<close> none after a rejected
  memory-map configuration; the other four operations abort right before the unlock
  whenever they fail with the lock held.
\<close>

lemma mode_quad_never_aborts:
  "Abort \<notin> set (events_since q (snd (mode_quad K E q)))"
  by (simp add: mode_quad_def outside_calls events_since_def Let_def)

lemma memory_mapped_failure_without_abort:
  "ok E (length (trace q) + 1) \<Longrightarrow> \<not> ok E (length (trace q) + 2) \<Longrightarrow>
     fst (memory_mapped K E q) = False
     \<and> (\<exists>c g. events_since q (snd (memory_mapped K E q))
           = [Abort, MutexTimedLock (QSPI_TIMEOUT K), MemoryMapped c g, MutexUnlock])"
  by (simp add: memory_mapped_def outside_calls events_since_def Let_def)

lemma siblings_abort_before_unlock:
  assumes "ok E (length (trace q))"
  shows "\<not> fst (read_JEDEC_ID K E q) \<Longrightarrow>
           \<exists>evs. events_since q (snd (read_JEDEC_ID K E q)) = evs @ [Abort, MutexUnlock]"
    and "\<not> fst (fst (read K E address count q)) \<Longrightarrow>
           \<exists>evs. events_since q (snd (read K E address count q)) = evs @ [Abort, MutexUnlock]"
    and "\<not> fst (page_write K E address buff count q) \<Longrightarrow>
           \<exists>evs. events_since q (snd (page_write K E address buff count q))
             = evs @ [Abort, MutexUnlock]"
    and "\<not> fst (erase K E address which q) \<Longrightarrow>
           \<exists>evs. events_since q (snd (erase K E address which q)) = evs @ [Abort, MutexUnlock]"
  using assms
  by (simp_all add: read_JEDEC_ID_def read_def page_write_def erase_def outside_calls
      events_since_def Let_def split: if_splits)

section \<open>The profile object\<close>

text \<open>
  Claim C4, that the profile is constructed once per successful identification and not
  again on repeated identity queries, does not hold of \<open>get_ID_data\<close>. After one
  successful \<open>read_JEDEC_ID\<close> nothing has been allocated; each of two calls of
  \<open>get_ID_data\<close> that follow allocates a new profile and overwrites the pointer to the
  previous one.
\<close>

theorem get_ID_data_allocates_each_time:
  "fst (read_JEDEC_ID flash_h_sample env_ok qspi_fresh) = True
   \<and> (let q1 = snd (read_JEDEC_ID flash_h_sample env_ok qspi_fresh);
           q2 = snd (get_ID_data q1);
           q3 = snd (get_ID_data q2)
       in allocated q1 = 0 \<and> pimpl q1 = None
        \<and> fst (get_ID_data q1) = (True, Some (0xEF, 0x40, 0x18))
        \<and> allocated q2 = 1 \<and> pimpl q2 = Some 0
        \<and> fst (get_ID_data q2) = (True, Some (0xEF, 0x40, 0x18))
        \<and> allocated q3 = 2 \<and> pimpl q3 = Some 1)"
  by (simp add: read_JEDEC_ID_def get_ID_data_def outside_calls sample_inputs Let_def)

text \<open>Every query on a valid identity allocates, so \<open>n\<close> queries leave \<open>n\<close> objects.\<close>

lemma get_ID_data_allocates:
  "valid_mem_ID q \<Longrightarrow>
     allocated (snd (get_ID_data q)) = allocated q + 1
     \<and> pimpl (snd (get_ID_data q)) = Some (allocated q)
     \<and> valid_mem_ID (snd (get_ID_data q))"
  by (simp add: get_ID_data_def)

end
